theory Spec2Isabelle
  imports Main
begin

section \<open>Shared data model\<close>

text \<open>
  The two source files are \<^verbatim>\<open>format_mp3.c\<close> (the MP3/ICY format plugin) and
  \<^verbatim>\<open>slave.c\<close> (relays, master polling, redirect peers). C \<^verbatim>\<open>int\<close> values are
  modelled as \<^typ>\<open>int\<close>; every quantity below is a buffer length, an offset or a small
  counter, far from the 32-bit range, so no wrap-around is written out except where the
  code mixes signed and unsigned operands. Bytes are \<^typ>\<open>char\<close> (8 bits, as C's
  \<^verbatim>\<open>char\<close>), buffers are \<^typ>\<open>char list\<close>. A \<^verbatim>\<open>NULL\<close>-able pointer is an
  \<^typ>\<open>'a option\<close>. Flag words are sets of named flags, since the flag constants live in
  headers outside the two files.
\<close>

datatype source_flag =
  SOURCE_RUNNING | SOURCE_ON_DEMAND | SOURCE_PAUSE_LISTENERS | SOURCE_TERMINATING
  | SOURCE_TIMEOUT | SOURCE_LISTENERS_SYNC

datatype refbuf_flag = SOURCE_BLOCK_SYNC

text \<open>
  \<^verbatim>\<open>refbuf_t\<close>: a byte block with a length, flags and an optional pointer to an
  associated block. \<open>refbuf_data\<close> is the allocation, \<open>refbuf_len\<close> the number of valid
  bytes. The associated block is always a metadata block, which is never written after it
  is published; a pointer to one is modelled by its address together with its bytes
  (\<open>meta_block\<close>), and pointers are compared by address, as the C compares them.
\<close>

record meta_block =
  meta_addr :: nat
  meta_data :: "char list"

record refbuf_t =
  refbuf_data :: "char list"
  refbuf_len :: int
  refbuf_associated :: "meta_block option"
  refbuf_flags :: "refbuf_flag set"

definition refbuf_new :: "int \<Rightarrow> refbuf_t" where
  "refbuf_new n = \<lparr>refbuf_data = replicate (nat n) (CHR 0x00), refbuf_len = n,
                   refbuf_associated = None, refbuf_flags = {}\<rparr>"

text \<open>
  \<^verbatim>\<open>mp3_state\<close>, the per-mount ingest state (declared in \<^verbatim>\<open>format_mp3.h\<close>, used
  throughout \<^verbatim>\<open>format_mp3.c\<close>). \<open>metadata\<close> is the current metadata block,
  \<open>build_metadata\<close> the 4081-byte staging array.
\<close>

record mp3_state =
  metadata :: meta_block
  url_title :: "char list option"
  url_artist :: "char list option"
  inline_url :: "char list option"
  update_metadata :: int
  interval :: int
  inline_metadata_interval :: int
  offset :: int
  build_metadata :: "char list"
  build_metadata_len :: int
  build_metadata_offset :: int
  read_data :: "refbuf_t option"
  read_count :: int
  queue_block_size :: int

text \<open>
  The part of \<^verbatim>\<open>source_t\<close> and of its source client that the ingest path touches.
  \<open>format_data\<close> is the client's \<^verbatim>\<open>mpeg_sync\<close> (present only for AAC/MPEG mounts);
  its type \<open>'m\<close> is left open because \<^verbatim>\<open>mpeg.c\<close> is a collaborator.
\<close>

record 'm source_t =
  source_flags :: "source_flag set"
  format_state :: mp3_state
  client_pos :: int
  client_queue_pos :: int
  format_data :: "'m option"

section \<open>Frame validation: \<^verbatim>\<open>validate_mpeg\<close>\<close>

text \<open>
  \<^verbatim>\<open>mpeg_complete_frames\<close> and \<^verbatim>\<open>mpeg_data_insert\<close> belong to \<^verbatim>\<open>mpeg.c\<close>; they
  are parameters. \<open>complete_frames m rb\<close> gives the unprocessed byte count, the new
  parser state and the block with its length cut back to a frame boundary (the
  unprocessed tail stays in the allocation behind \<open>refbuf_len\<close>). The statistics event
  at the end of the C function has no effect on the values modelled here.
\<close>

definition leftover_bytes :: "refbuf_t \<Rightarrow> int \<Rightarrow> char list" where
  "leftover_bytes rb unprocessed =
     take (nat unprocessed) (drop (nat (refbuf_len rb)) (refbuf_data rb))"

definition validate_mpeg ::
  "('m \<Rightarrow> refbuf_t \<Rightarrow> int \<times> 'm \<times> refbuf_t) \<Rightarrow> ('m \<Rightarrow> refbuf_t \<Rightarrow> 'm) \<Rightarrow>
   'm \<Rightarrow> 'm source_t \<Rightarrow> refbuf_t \<Rightarrow> int \<times> 'm source_t \<times> refbuf_t" where
  "validate_mpeg complete_frames data_insert mpeg_sync source refbuf0 =
    (case complete_frames mpeg_sync refbuf0 of (unprocessed, sync1, refbuf) \<Rightarrow>
     let source1 = source\<lparr>format_data := Some sync1\<rparr>;
         source_mp3 = format_state source1 in
     if unprocessed < 0 \<or> unprocessed > 8000 then
       (if unprocessed > 0 \<and> refbuf_len refbuf \<noteq> 0 then (0, source1, refbuf)
        else (- 1, source1\<lparr>source_flags := source_flags source1 - {SOURCE_RUNNING}\<rparr>, refbuf))
     else if unprocessed > 0 then
       (if inline_metadata_interval source_mp3 > 0
           \<and> inline_metadata_interval source_mp3 \<le> offset source_mp3 then
          (let leftover = (refbuf_new unprocessed)
                 \<lparr>refbuf_data := leftover_bytes refbuf unprocessed\<rparr> in
           (if refbuf_len refbuf \<noteq> 0 then 0 else - 1,
            source1\<lparr>format_data := Some (data_insert sync1 leftover), client_pos := 0\<rparr>,
            refbuf))
        else
          (let mp3a = (if inline_metadata_interval source_mp3 > 0
                       then source_mp3\<lparr>offset := offset source_mp3 - unprocessed\<rparr>
                       else source_mp3);
               n = (if unprocessed < queue_block_size mp3a then queue_block_size mp3a
                    else unprocessed + 1000);
               leftover = (refbuf_new n)
                 \<lparr>refbuf_data := leftover_bytes refbuf unprocessed
                     @ replicate (nat (n - unprocessed)) (CHR 0x00)\<rparr> in
           (if refbuf_len refbuf \<noteq> 0 then 0 else - 1,
            source1\<lparr>format_state := mp3a\<lparr>read_data := Some leftover, read_count := unprocessed\<rparr>,
                    client_pos := unprocessed\<rparr>,
            refbuf)))
     else (if refbuf_len refbuf \<noteq> 0 then 0 else - 1, source1\<lparr>client_pos := 0\<rparr>, refbuf))"

text \<open>
  The string constants of the ICY format (\<^verbatim>\<open>StreamTitle='\<close>, \<^verbatim>\<open>StreamUrl='\<close> and
  the terminator \<^verbatim>\<open>';\<close>), the initial metadata block, and a running source with an
  MPEG parser attached, for the worked examples.
\<close>

definition streamtitle :: string where
  "streamtitle = ''StreamTitle='' @ [CHR 0x27]"


definition quote_semicolon :: string where
  "quote_semicolon = [CHR 0x27, CHR '';'']"

definition blank_block :: meta_block where
  "blank_block = \<lparr>meta_addr = 1, meta_data = CHR 0x01 # streamtitle @ quote_semicolon\<rparr>"

definition example_mp3_state :: mp3_state where
  "example_mp3_state =
     \<lparr>metadata = blank_block, url_title = None, url_artist = None, inline_url = None,
      update_metadata = 0, interval = 16000, inline_metadata_interval = 0, offset = 0,
      build_metadata = replicate 4081 (CHR 0x00), build_metadata_len = 0,
      build_metadata_offset = 0, read_data = None, read_count = 0, queue_block_size = 1400\<rparr>"

definition example_source :: "unit source_t" where
  "example_source =
     \<lparr>source_flags = {SOURCE_RUNNING}, format_state = example_mp3_state,
      client_pos = 0, client_queue_pos = 0, format_data = Some ()\<rparr>"

section \<open>Relays: data model\<close>

text \<open>
  \<^verbatim>\<open>relay_server_master\<close> and \<^verbatim>\<open>relay_server\<close> as \<^verbatim>\<open>slave.c\<close> uses them. The
  singly-linked list of masters is a list. \<open>relay_source\<close> is the pointer to the
  source object, \<open>in_use\<close> the position in \<open>masters\<close> of the master in use. The record
  a relay's \<open>new_details\<close> points to is always a fresh \<^verbatim>\<open>relay_copy\<close> (whose own
  \<open>new_details\<close> is \<^verbatim>\<open>NULL\<close>), so it is kept as a \<open>relay_conf\<close>: the relay without that
  field.
\<close>

record relay_server_master =
  ip :: string
  port :: int
  mount :: string
  bind :: "string option"
  timeout :: int
  skip :: int

record relay_conf =
  localmount :: string
  masters :: "relay_server_master list"
  username :: "string option"
  password :: "string option"
  mp3metadata :: int
  on_demand :: int
  relay_interval :: int
  running :: int
  cleanup :: int
  relay_source :: "nat option"
  in_use :: "nat option"

record relay_server = relay_conf +
  new_details :: "relay_conf option"

definition relay_of_conf :: "relay_conf \<Rightarrow> relay_server" where
  "relay_of_conf c =
     \<lparr>localmount = localmount c, masters = masters c, username = username c,
      password = password c, mp3metadata = mp3metadata c, on_demand = on_demand c,
      relay_interval = relay_interval c, running = running c, cleanup = cleanup c,
      relay_source = relay_source c, in_use = in_use c, new_details = None\<rparr>"



definition get_relay_details :: "relay_server \<Rightarrow> relay_server" where
  "get_relay_details relay =
     (case new_details relay of
        None \<Rightarrow> relay
      | Some nd \<Rightarrow> relay_of_conf (nd\<lparr>relay_source := relay_source relay\<rparr>))"

datatype client_ops = relay_client_ops | relay_startup_ops | relay_init_ops

record relay_client =
  ops :: client_ops
  schedule_ms :: int
  client_active :: bool

record slave_globals =
  relays_connecting :: int
  new_connections_slowdown :: int

section \<open>Relays: \<^verbatim>\<open>relay_startup\<close> and the connecting counter\<close>

text \<open>
  What \<^verbatim>\<open>relay_startup\<close> finds when it looks up the fallback mount of an on-demand
  relay: no fallback configured, a fallback source (is it another mount, and its listener
  count), or a fallback file (the count \<^verbatim>\<open>fserve_query_count\<close> returns).
\<close>

datatype fallback_lookup =
  No_fallback | Fallback_source bool int | Fallback_file int

definition on_demand_start :: "int \<Rightarrow> fallback_lookup \<Rightarrow> int \<times> int" where
  "on_demand_start listeners fb =
     (case fb of
        No_fallback \<Rightarrow> (listeners, 0)
      | Fallback_source other fl \<Rightarrow> (if other \<and> fl \<noteq> 0 then 1 else listeners, 1)
      | Fallback_file n \<Rightarrow> (if n > 0 then 1 else listeners, 1))"

text \<open>
  \<^verbatim>\<open>relay_startup\<close>. Arguments: is the server running (\<^verbatim>\<open>global.running == ICE_RUNNING\<close>),
  the worker's clock, the source's listener count and fallback lookup, the source's
  flags, the relay, its client and the globals. Result: the return value, the relay, the
  client, the source flags, the globals, and whether a \<^verbatim>\<open>start_relay_stream\<close> thread
  was created. The section between \<^verbatim>\<open>thread_spin_lock\<close> and \<^verbatim>\<open>thread_spin_unlock\<close>
  is one step.
\<close>

definition relay_startup ::
  "bool \<Rightarrow> int \<Rightarrow> int \<Rightarrow> fallback_lookup \<Rightarrow> source_flag set \<Rightarrow> relay_server \<Rightarrow>
   relay_client \<Rightarrow> slave_globals \<Rightarrow>
   int \<times> relay_server \<times> relay_client \<times> source_flag set \<times> slave_globals \<times> bool" where
  "relay_startup ice_running time_ms listeners fb sflags relay0 client g =
    (let relay1 = get_relay_details relay0;
         relay = (if cleanup relay1 \<noteq> 0 then relay1\<lparr>running := 0\<rparr> else relay1) in
     if running relay = 0 then
       (if relay_source relay = None then (- 1, relay, client, sflags, g, False)
        else (0, relay, client\<lparr>ops := relay_client_ops, schedule_ms := time_ms + 20\<rparr>,
              sflags, g, False))
     else if \<not> ice_running then
       (0, relay, client\<lparr>schedule_ms := time_ms + 50\<rparr>, sflags, g, False)
     else
       (let (start_relay, fallback_def) =
              (if on_demand relay \<noteq> 0 then on_demand_start listeners fb else (1, 0));
            sflags1 = (if on_demand relay \<noteq> 0 then insert SOURCE_ON_DEMAND sflags else sflags) in
        if on_demand relay \<noteq> 0 \<and> start_relay = 0 then
          (0, relay,
           client\<lparr>schedule_ms := time_ms +
                     (if fallback_def \<noteq> 0 then relay_interval relay * 1000 else 60000)\<rparr>,
           sflags1, g, False)
        else if relays_connecting g > 3 then
          (0, relay, client\<lparr>schedule_ms := time_ms + 200\<rparr>, sflags1,
           (if new_connections_slowdown g < 5
            then g\<lparr>new_connections_slowdown := new_connections_slowdown g + 1\<rparr> else g),
           False)
        else
          (0, relay, client\<lparr>client_active := False\<rparr>, sflags1,
           g\<lparr>relays_connecting := relays_connecting g + 1\<rparr>, True)))"

text \<open>
  The end of \<^verbatim>\<open>start_relay_stream\<close>: whatever the outcome of the open, the thread
  takes the spin lock and decrements the counter.
\<close>

definition start_relay_stream_done :: "slave_globals \<Rightarrow> slave_globals" where
  "start_relay_stream_done g = g\<lparr>relays_connecting := relays_connecting g - 1\<rparr>"

text \<open>
  The relay state machine as far as the counter is concerned. \<open>slave_initialize\<close> zeroes
  the counter. An event is either a worker calling \<^verbatim>\<open>relay_startup\<close> on some relay
  client (with whatever that call finds), or one of the running \<^verbatim>\<open>start_relay_stream\<close>
  threads reaching its end; the second is possible only while such a thread exists.
  \<open>threads\<close> counts the threads created and not yet finished.
\<close>

record relay_system =
  globals :: slave_globals
  threads :: nat

datatype relay_event =
  Startup bool int int fallback_lookup "source_flag set" relay_server relay_client
  | Thread_done

definition slave_initialize :: relay_system where
  "slave_initialize = \<lparr>globals = \<lparr>relays_connecting = 0, new_connections_slowdown = 0\<rparr>,
                       threads = 0\<rparr>"

fun relay_step :: "relay_system \<Rightarrow> relay_event \<Rightarrow> relay_system" where
  "relay_step s (Startup ice_running time_ms listeners fb sflags relay client) =
     (case relay_startup ice_running time_ms listeners fb sflags relay client (globals s) of
        (ret, relay', client', sflags', g', spawned) \<Rightarrow>
          \<lparr>globals = g', threads = (if spawned then Suc (threads s) else threads s)\<rparr>)"
| "relay_step s Thread_done =
     (if threads s = 0 then s
      else \<lparr>globals = start_relay_stream_done (globals s), threads = threads s - 1\<rparr>)"

definition relay_run :: "relay_event list \<Rightarrow> relay_system" where
  "relay_run evs = foldl relay_step slave_initialize evs"

definition example_relay :: relay_server where
  "example_relay =
     \<lparr>localmount = ''/live'',
      masters = [\<lparr>ip = ''m1'', port = 8000, mount = ''/live'', bind = None, timeout = 4, skip = 0\<rparr>],
      username = None, password = None, mp3metadata = 1, on_demand = 0, relay_interval = 120,
      running = 1, cleanup = 0, relay_source = Some 0, in_use = None, new_details = None\<rparr>"

definition example_client :: relay_client where
  "example_client = \<lparr>ops = relay_startup_ops, schedule_ms = 0, client_active = True\<rparr>"

section \<open>C library helpers\<close>





text \<open>Decimal output of \<^verbatim>\<open>printf\<close>: \<^verbatim>\<open>%u\<close> for a natural number, \<^verbatim>\<open>%d\<close> for an integer.\<close>

definition digit_char :: "nat \<Rightarrow> char" where
  "digit_char d = ''0123456789'' ! d"

fun show_nat :: "nat \<Rightarrow> string" where
  "show_nat n =
     (if n < 10 then [digit_char n]
      else show_nat (n div 10) @ [digit_char (n mod 10)])"

declare show_nat.simps [simp del]

definition show_int :: "int \<Rightarrow> string" where
  "show_int i = (if i < 0 then CHR ''-'' # show_nat (nat (- i)) else show_nat (nat i))"

text \<open>
  \<^verbatim>\<open>snprintf (buf, n, ...)\<close> stores at most \<open>n - 1\<close> characters of the formatted
  text (and a terminating NUL); \<open>n\<close> is a \<^verbatim>\<open>size_t\<close>, so it is a natural number.
\<close>

definition snprintf :: "nat \<Rightarrow> string \<Rightarrow> string" where
  "snprintf n s = take (n - 1) s"

text \<open>
  The HTTP request or response the \<^verbatim>\<open>httpp\<close> parser holds: the header variables
  (\<^verbatim>\<open>httpp_getvar\<close>), the query parameters (\<^verbatim>\<open>httpp_get_query_param\<close>), and the three
  variables the code reads through the macros \<^verbatim>\<open>HTTPP_VAR_QUERYARGS\<close>,
  \<^verbatim>\<open>HTTPP_VAR_ERROR_CODE\<close> and \<^verbatim>\<open>HTTPP_VAR_ERROR_MESSAGE\<close>.
\<close>

record http_parser_t =
  httpp_getvar :: "string \<Rightarrow> string option"
  httpp_get_query_param :: "string \<Rightarrow> string option"
  queryargs :: "string option"
  errorcode :: "string option"
  error_message :: "string option"

section \<open>Redirect peers\<close>

record redirect_host =
  server :: string
  redirect_port :: int
  next_update :: int

text \<open>
  The list \<^verbatim>\<open>redirectors\<close> and the counter \<^verbatim>\<open>global.redirect_count\<close> are the state.
  \<open>now\<close> is what \<^verbatim>\<open>time(NULL)\<close> returns during the call.
\<close>

record redirect_state =
  redirectors :: "redirect_host list"
  redirect_count :: int




text \<open>
  \<^verbatim>\<open>redirect_client\<close>. \<open>which\<close> is the random draw. The loop walks the list: an entry
  with a non-zero \<open>next_update\<close> more than 10 seconds in the past is unlinked, the others
  are kept, and the entry at which \<open>--which\<close> reaches 0 gets the 302. The scan returns the
  kept entries, the number dropped, and the locations sent.
\<close>

record listener_client =
  client_username :: "string option"
  client_password :: "string option"
  client_parser :: http_parser_t

definition redirect_location :: "string \<Rightarrow> listener_client \<Rightarrow> redirect_host \<Rightarrow> string" where
  "redirect_location mountpoint client checking =
     (let args = (case queryargs (client_parser client) of None \<Rightarrow> [] | Some a \<Rightarrow> a);
          creds = (case (client_username client, client_password client) of
                     (Some user, Some pass) \<Rightarrow> Some (user, pass) | _ \<Rightarrow> None);
          n = length mountpoint + length (server checking) + 15 + length args
                + (case creds of Some (user, pass) \<Rightarrow> length user + length pass | None \<Rightarrow> 0)
      in snprintf n
           (''http://''
            @ (case creds of Some (user, pass) \<Rightarrow> user @ '':'' @ pass @ ''@'' | None \<Rightarrow> [])
            @ server checking @ '':'' @ show_int (redirect_port checking)
            @ mountpoint @ args))"

definition expired :: "int \<Rightarrow> redirect_host \<Rightarrow> bool" where
  "expired now checking = (next_update checking \<noteq> 0 \<and> next_update checking + 10 < now)"

fun redirect_scan ::
  "string \<Rightarrow> listener_client \<Rightarrow> int \<Rightarrow> int \<Rightarrow> redirect_host list \<Rightarrow>
   redirect_host list \<times> int \<times> string list" where
  "redirect_scan mountpoint client now which [] = ([], 0, [])"
| "redirect_scan mountpoint client now which (checking # rest) =
     (if expired now checking then
        (case redirect_scan mountpoint client now (if which > 0 then which - 1 else which) rest of
           (kept, dropped, sent) \<Rightarrow> (kept, dropped + 1, sent))
      else
        (case redirect_scan mountpoint client now (which - 1) rest of
           (kept, dropped, sent) \<Rightarrow>
             (checking # kept, dropped,
              (if which - 1 = 0 then [redirect_location mountpoint client checking] else [])
              @ sent)))"

definition redirect_client ::
  "string \<Rightarrow> listener_client \<Rightarrow> int \<Rightarrow> int \<Rightarrow> redirect_state \<Rightarrow>
   int \<times> redirect_state \<times> string list" where
  "redirect_client mountpoint client now which st =
     (if redirect_count st = 0 then (0, st, [])
      else
        (case redirect_scan mountpoint client now which (redirectors st) of
           (kept, dropped, sent) \<Rightarrow>
             (if sent = [] then 0 else 1,
              \<lparr>redirectors = kept, redirect_count = redirect_count st - dropped\<rparr>,
              sent)))"

definition example_listener :: listener_client where
  "example_listener =
     \<lparr>client_username = None, client_password = None,
      client_parser = \<lparr>httpp_getvar = Map.empty, httpp_get_query_param = Map.empty,
                        queryargs = None, errorcode = None, error_message = None\<rparr>\<rparr>"

definition query_parser :: "(string \<times> string) list \<Rightarrow> http_parser_t" where
  "query_parser kvs =
     \<lparr>httpp_getvar = Map.empty, httpp_get_query_param = map_of kvs,
      queryargs = None, errorcode = None, error_message = None\<rparr>"

section \<open>Relays: the configuration diff\<close>








section \<open>Relays: opening the upstream connection\<close>










section \<open>Inline metadata: \<^verbatim>\<open>parse_icy_metadata\<close>\<close>





definition byte_at :: "char list \<Rightarrow> nat \<Rightarrow> char" where
  "byte_at buf i = (if i < length buf then buf ! i else CHR 0x00)"



section \<open>Inline metadata: \<^verbatim>\<open>mp3_get_filter_meta\<close>\<close>














section \<open>The ICY framing as the specification words it\<close>

text \<open>
  The stream format in the specification's words: every \<open>I\<close> payload bytes are followed
  by a block whose first byte \<open>L\<close> announces \<open>16 * L\<close> further bytes. \<open>icy_strip\<close> reads a
  stream byte by byte and keeps the payload; its phase is the number of payload bytes
  since the last block, or the number of bytes of the current block still to come.
  \<open>icy_interleave\<close> builds such a stream from segments (a payload run and the block that
  follows it) and a final payload run.
\<close>

datatype icy_phase = Audio nat | Meta nat




text \<open>
  Example states for the parser: the current metadata is a 33-byte block for the title
  \<open>abc\<close>; \<open>short_block_state\<close> has received the first 17 bytes of that same block as a
  complete block, \<open>bad_length_state\<close> a 17-byte block that announces 33 bytes and differs
  from the current metadata, and \<open>stalled_source\<close> is a source whose state says that one
  byte of a 5-byte block has arrived.
\<close>

definition title_block :: meta_block where
  "title_block =
     \<lparr>meta_addr = 2,
      meta_data = CHR 0x02 # streamtitle @ ''abc'' @ quote_semicolon @ replicate 14 (CHR 0x00)\<rparr>"




text \<open>
  How the ingest state of the code stands for a phase of the framing: in payload the
  code counts the bytes in \<open>offset\<close> and has no block in progress; inside a block
  \<open>offset\<close> stays at the interval, the first byte of \<open>build_metadata\<close> is the length byte
  and \<open>build_metadata_len - build_metadata_offset\<close> bytes are still to come. \<open>in_block\<close>
  describes the state right after the length byte has been looked at, with \<open>xs\<close> the
  bytes at \<^verbatim>\<open>src\<close> and \<open>r\<close> the bytes of the block still to come (its length byte
  included when nothing of it has been stored yet).
\<close>

definition icy_state :: "nat \<Rightarrow> mp3_state \<Rightarrow> icy_phase \<Rightarrow> bool" where
  "icy_state I st ph =
     (inline_metadata_interval st = int I \<and>
      (case ph of
         Audio k \<Rightarrow> build_metadata_len st = 0 \<and> offset st = int k \<and> k \<le> I
       | Meta r \<Rightarrow>
           offset st = int I \<and> 0 < r
           \<and> build_metadata_len st = 1 + 16 * of_char (byte_at (build_metadata st) 0)
           \<and> length (build_metadata st) = 4081
           \<and> 0 < build_metadata_offset st
           \<and> build_metadata_len st - build_metadata_offset st = int r))"



section \<open>Listeners: \<^verbatim>\<open>format_mp3_write_buf_to_client\<close> and \<^verbatim>\<open>send_icy_metadata\<close>\<close>

text \<open>
  A listener client: the format flags, the parsed request, the block it is reading
  (\<^verbatim>\<open>client->refbuf\<close>, which holds the response headers until they are sent) and its
  position in it, the byte counters, and the \<^verbatim>\<open>mp3_client_data\<close> fields. The process
  wide \<^verbatim>\<open>blank_meta\<close> is the block of 17 bytes \<open>blank_meta\<close>.
\<close>

datatype client_flag =
  CLIENT_IN_METADATA | CLIENT_USING_BLANK_META | CLIENT_WANTS_META | CLIENT_WANTS_FLV

record listener_t =
  listener_flags :: "client_flag set"
  listener_parser :: http_parser_t
  listener_refbuf :: refbuf_t
  pos :: int
  queue_pos :: int
  counter :: int
  listener_schedule_ms :: int
  client_associated :: "meta_block option"
  client_interval :: int
  since_meta_block :: int
  metadata_offset :: int

definition blank_meta :: meta_block where
  "blank_meta = \<lparr>meta_addr = 0, meta_data = CHR 0x01 # streamtitle @ quote_semicolon\<rparr>"

text \<open>
  The socket is a parameter: \<open>send n\<close> is what \<^verbatim>\<open>client_send_bytes\<close> or
  \<^verbatim>\<open>connection_bufs_send\<close> returns when asked to write \<open>n\<close> bytes (the number accepted,
  or a value below 1 when nothing could be written).

  \<^verbatim>\<open>send_icy_metadata\<close> first chooses the metadata bytes still to send and their number
  \<open>meta_len\<close>; \<open>None\<close> stands for resuming a block through a \<^verbatim>\<open>NULL\<close>
  \<open>client_associated\<close>. Reference counting is not modelled.
\<close>

definition icy_meta_choice :: "listener_t \<Rightarrow> (char list \<times> int \<times> listener_t) option" where
  "icy_meta_choice client =
     (if CLIENT_IN_METADATA \<in> listener_flags client then
        (case client_associated client of
           None \<Rightarrow> None
         | Some a \<Rightarrow>
             Some (drop (nat (metadata_offset client)) (meta_data a),
                   int (length (meta_data a)) - metadata_offset client, client))
      else
        (case refbuf_associated (listener_refbuf client) of
           Some associated \<Rightarrow>
             if Some (meta_addr associated) \<noteq> map_option meta_addr (client_associated client)
             then
               Some (meta_data associated, int (length (meta_data associated)),
                     client\<lparr>listener_flags := listener_flags client - {CLIENT_USING_BLANK_META},
                            client_associated := Some associated\<rparr>)
             else Some ([CHR 0x00], 1, client)
         | None \<Rightarrow>
             if CLIENT_USING_BLANK_META \<in> listener_flags client
             then Some ([CHR 0x00], 1, client)
             else
               Some (drop (nat (metadata_offset client)) (meta_data blank_meta),
                     int (length (meta_data blank_meta)) - metadata_offset client,
                     client\<lparr>listener_flags :=
                              insert CLIENT_USING_BLANK_META (listener_flags client),
                            client_associated := Some blank_meta\<rparr>)))"

text \<open>
  \<open>icy_block_len\<close> is \<^verbatim>\<open>block_len\<close>, the audio that goes out with the metadata (capped at
  the interval); \<open>audio_len\<close> is \<^verbatim>\<open>len\<close>, the audio of an ordinary write (capped at what
  is left of the interval, and at 2900).
\<close>

definition icy_block_len :: "listener_t \<Rightarrow> int" where
  "icy_block_len client =
     (if refbuf_len (listener_refbuf client) - pos client > client_interval client
      then client_interval client
      else refbuf_len (listener_refbuf client) - pos client)"

definition audio_len :: "listener_t \<Rightarrow> int" where
  "audio_len client =
     (let len0 = refbuf_len (listener_refbuf client) - pos client;
          len1 = (if client_interval client \<noteq> 0
                     \<and> len0 > client_interval client - since_meta_block client
                  then client_interval client - since_meta_block client else len0)
      in if len1 > 2900 then 2900 else len1)"

definition send_icy_metadata :: "(int \<Rightarrow> int) \<Rightarrow> listener_t \<Rightarrow> (int \<times> listener_t) option" where
  "send_icy_metadata send client0 =
     (case icy_meta_choice client0 of
        None \<Rightarrow> None
      | Some (mdata, meta_len, client) \<Rightarrow>
          (let ret = send (meta_len + icy_block_len client) in
           if ret \<ge> meta_len then
             (let queue_bytes = ret - meta_len in
              Some (ret,
                client\<lparr>queue_pos := queue_pos client + queue_bytes,
                       counter := counter client + queue_bytes,
                       since_meta_block := queue_bytes,
                       pos := pos client + queue_bytes,
                       listener_flags := listener_flags client - {CLIENT_IN_METADATA},
                       metadata_offset := 0\<rparr>))
           else
             Some (ret,
               client\<lparr>listener_flags := insert CLIENT_IN_METADATA (listener_flags client),
                      metadata_offset :=
                        (if ret > 0 then metadata_offset client + ret else metadata_offset client),
                      listener_schedule_ms := listener_schedule_ms client + 150\<rparr>)))"

definition format_mp3_write_buf_to_client ::
  "(int \<Rightarrow> int) \<Rightarrow> listener_t \<Rightarrow> (int \<times> listener_t) option" where
  "format_mp3_write_buf_to_client send client =
     (if client_interval client \<noteq> 0 \<and> client_interval client = since_meta_block client
      then send_icy_metadata send client
      else if audio_len client \<noteq> 0 then
        (let ret = send (audio_len client);
             client1 = (if ret < audio_len client
                        then client\<lparr>listener_schedule_ms := listener_schedule_ms client + 50\<rparr>
                        else client);
             client2 = (if ret > 0
                        then client1\<lparr>since_meta_block := since_meta_block client1 + ret,
                                     pos := pos client1 + ret,
                                     queue_pos := queue_pos client1 + ret,
                                     counter := counter client1 + ret\<rparr>
                        else client1) in
         Some (ret, client2\<lparr>listener_schedule_ms := listener_schedule_ms client2 + 4\<rparr>))
      else Some (- 1, client\<lparr>listener_schedule_ms := listener_schedule_ms client + 4\<rparr>))"

text \<open>
  A listener over a sequence of write ticks. Before a tick the caller (the source's
  listener loop) may have moved the client to a new block, with \<open>pos\<close> reset to 0. Beside
  the client, the run counts the metadata inserts completed: a tick that entered
  \<^verbatim>\<open>send_icy_metadata\<close> and came back with \<open>CLIENT_IN_METADATA\<close> clear, which is how the
  source says a caller sees that all metadata has been sent.
\<close>

record write_tick =
  next_block :: "refbuf_t option"
  tick_send :: "int \<Rightarrow> int"

definition enter_tick :: "listener_t \<Rightarrow> write_tick \<Rightarrow> listener_t" where
  "enter_tick client t =
     (case next_block t of
        None \<Rightarrow> client
      | Some rb \<Rightarrow> client\<lparr>listener_refbuf := rb, pos := 0\<rparr>)"

definition insert_completed :: "listener_t \<Rightarrow> listener_t \<Rightarrow> bool" where
  "insert_completed client client1 =
     (client_interval client \<noteq> 0 \<and> client_interval client = since_meta_block client
      \<and> CLIENT_IN_METADATA \<notin> listener_flags client1)"

fun listener_run :: "listener_t \<Rightarrow> nat \<Rightarrow> write_tick list \<Rightarrow> (listener_t \<times> nat) option" where
  "listener_run client inserts [] = Some (client, inserts)"
| "listener_run client inserts (t # ts) =
     (case format_mp3_write_buf_to_client (tick_send t) (enter_tick client t) of
        None \<Rightarrow> None
      | Some (ret, client1) \<Rightarrow>
          listener_run client1
            (if insert_completed (enter_tick client t) client1 then Suc inserts else inserts) ts)"

text \<open>A fresh ICY listener with interval 16, and a block of 40 payload bytes.\<close>

definition example_block :: refbuf_t where
  "example_block = (refbuf_new 40)\<lparr>refbuf_associated := Some title_block\<rparr>"

definition example_icy_listener :: listener_t where
  "example_icy_listener =
     \<lparr>listener_flags = {}, listener_parser = query_parser [],
      listener_refbuf = example_block, pos = 0, queue_pos = 0,
      counter = 0, listener_schedule_ms = 0, client_associated = None, client_interval = 16,
      since_meta_block = 0, metadata_offset = 0\<rparr>"

text \<open>
  The invariant of a listener with a positive interval after \<open>inserts\<close> completed
  inserts: the payload count is \<open>inserts\<close> intervals plus the bytes since the last
  insert, which never exceed the interval; an insert in progress sits at the boundary,
  and the flags that make the code read \<open>client_associated\<close> imply it is set.
\<close>

definition cadence :: "listener_t \<Rightarrow> nat \<Rightarrow> bool" where
  "cadence client inserts =
     (0 < client_interval client
      \<and> 0 \<le> since_meta_block client \<and> since_meta_block client \<le> client_interval client
      \<and> counter client = int inserts * client_interval client + since_meta_block client
      \<and> (CLIENT_IN_METADATA \<in> listener_flags client
           \<longrightarrow> since_meta_block client = client_interval client)
      \<and> (CLIENT_IN_METADATA \<in> listener_flags client
           \<or> CLIENT_USING_BLANK_META \<in> listener_flags client
           \<longrightarrow> client_associated client \<noteq> None))"

section \<open>Listeners: \<^verbatim>\<open>format_mp3_create_client_data\<close>\<close>


definition add_header :: "(string \<times> nat) option \<Rightarrow> string \<Rightarrow> (string \<times> nat) option" where
  "add_header st s =
     (case st of
        None \<Rightarrow> None
      | Some (text, remaining) \<Rightarrow>
          if length s < remaining then Some (text @ s, remaining - length s) else None)"
















section \<open>Theorems\<close>

subsection \<open>Frame validation\<close>

text \<open>
  C4, as the claim states it, fails: when the parser reports more than 8000 unprocessed
  bytes but the block still holds complete frames (\<open>refbuf_len \<noteq> 0\<close>), the guard
  \<^verbatim>\<open>if (unprocessed > 0 && refbuf->len) return 0;\<close> keeps the source running and the
  result is 0. Here the parser reports 9000 unprocessed bytes and leaves 1400 valid ones.
\<close>

theorem validate_mpeg_excess_keeps_running:
  "validate_mpeg (\<lambda>m rb. (9000, m, rb\<lparr>refbuf_len := 1400\<rparr>)) (\<lambda>m rb. m) ()
     example_source (refbuf_new 10400)
   = (0, example_source, (refbuf_new 10400)\<lparr>refbuf_len := 1400\<rparr>)
   \<and> SOURCE_RUNNING \<in> source_flags example_source"
  by (simp add: validate_mpeg_def example_source_def)

text \<open>
  C4, amended: the source is torn down (\<open>SOURCE_RUNNING\<close> cleared, result \<open>-1\<close>) when the
  unprocessed count is negative, or when it exceeds 8000 and no complete frame is left in
  the block; when it exceeds 8000 and the block still holds frames, the result is 0 and
  the flags are untouched.
\<close>

theorem validate_mpeg_teardown:
  assumes "complete_frames mpeg_sync refbuf0 = (unprocessed, sync1, refbuf)"
    and "validate_mpeg complete_frames data_insert mpeg_sync source refbuf0 = (ret, source', refbuf')"
  shows "(unprocessed < 0 \<or> (unprocessed > 8000 \<and> refbuf_len refbuf = 0)
            \<longrightarrow> ret = - 1 \<and> SOURCE_RUNNING \<notin> source_flags source'
                \<and> source_flags source' = source_flags source - {SOURCE_RUNNING})
       \<and> (unprocessed > 8000 \<and> refbuf_len refbuf \<noteq> 0
            \<longrightarrow> ret = 0 \<and> source_flags source' = source_flags source)"
  using assms by (auto simp: validate_mpeg_def)

theorem validate_mpeg_teardown_witness:
  "validate_mpeg (\<lambda>m rb. (- 1, m, rb)) (\<lambda>m rb. m) () example_source (refbuf_new 1400)
   = (- 1, example_source\<lparr>source_flags := {}\<rparr>, refbuf_new 1400)"
proof -
  let ?cf = "\<lambda>(m::unit) (rb::refbuf_t). (- 1 :: int, m, rb)"
  have v: "validate_mpeg ?cf (\<lambda>m rb. m) () example_source (refbuf_new 1400)
             = (- 1, example_source\<lparr>source_flags := {}\<rparr>, refbuf_new 1400)"
    by (simp add: validate_mpeg_def example_source_def)
  have c: "?cf () (refbuf_new 1400) = (- 1, (), refbuf_new 1400)" by simp
  from validate_mpeg_teardown [OF c v] v show ?thesis by simp
qed

subsection \<open>The connecting counter\<close>

lemma relay_startup_counter:
  assumes "relay_startup ir t l fb sf relay client g = (ret, relay', client', sf', g', spawned)"
  shows "relays_connecting g' = (if spawned then relays_connecting g + 1 else relays_connecting g)"
    and "spawned \<Longrightarrow> relays_connecting g \<le> 3"
  using assms
  by (auto simp: relay_startup_def Let_def split: if_splits prod.splits)

lemma relay_step_invariant:
  assumes "relays_connecting (globals s) = int (threads s)" and "threads s \<le> 4"
  shows "relays_connecting (globals (relay_step s ev)) = int (threads (relay_step s ev))
         \<and> threads (relay_step s ev) \<le> 4"
proof (cases ev)
  case (Startup ir t l fb sf relay client)
  obtain ret relay' client' sf' g' spawned where
    r: "relay_startup ir t l fb sf relay client (globals s) = (ret, relay', client', sf', g', spawned)"
    by (metis prod_cases3)
  from relay_startup_counter [OF r] assms Startup r show ?thesis
    by (cases spawned) auto
next
  case Thread_done
  with assms show ?thesis by (auto simp: start_relay_stream_done_def)
qed

lemma relay_run_invariant:
  "relays_connecting (globals (foldl relay_step s evs)) = int (threads (foldl relay_step s evs))
   \<and> threads (foldl relay_step s evs) \<le> 4"
  if "relays_connecting (globals s) = int (threads s)" and "threads s \<le> 4"
  using that
proof (induction evs arbitrary: s)
  case Nil
  then show ?case by simp
next
  case (Cons ev evs)
  from relay_step_invariant [OF Cons.prems] Cons.IH [of "relay_step s ev"]
  show ?case by simp
qed

text \<open>
  C3, as the claim states it, fails: the test in \<^verbatim>\<open>relay_startup\<close> is
  \<^verbatim>\<open>relays_connecting > 3\<close>, so a fourth relay passes it while three are connecting.
  Four relays entering \<^verbatim>\<open>relay_startup\<close> before any open finishes leave the counter
  at 4.
\<close>

theorem relays_connecting_reaches_four:
  "relays_connecting (globals (relay_run
     [Startup True 0 0 No_fallback {} example_relay example_client,
      Startup True 0 0 No_fallback {} example_relay example_client,
      Startup True 0 0 No_fallback {} example_relay example_client,
      Startup True 0 0 No_fallback {} example_relay example_client])) = 4"
  by (simp add: relay_run_def slave_initialize_def relay_startup_def get_relay_details_def
      example_relay_def example_client_def)

text \<open>
  C3, amended: in every reachable state of the relay state machine the counter
  \<open>relays_connecting\<close> equals the number of relay-open threads started and not yet
  finished, and it lies between 0 and 4.
\<close>

theorem relays_connecting_cap:
  "relays_connecting (globals (relay_run evs)) = int (threads (relay_run evs))
   \<and> 0 \<le> relays_connecting (globals (relay_run evs))
   \<and> relays_connecting (globals (relay_run evs)) \<le> 4"
  using relay_run_invariant [of slave_initialize evs]
  by (simp add: relay_run_def slave_initialize_def)

subsection \<open>Redirect peers\<close>

lemma redirect_scan_kept:
  "redirect_scan mp cl now which hs = (kept, dropped, sent) \<Longrightarrow>
     kept = filter (\<lambda>h. \<not> expired now h) hs
     \<and> dropped = int (length (filter (expired now) hs))"
proof (induction hs arbitrary: which kept dropped sent)
  case Nil
  then show ?case by simp
next
  case (Cons h hs)
  show ?case
  proof (cases "expired now h")
    case True
    obtain k d s where r:
      "redirect_scan mp cl now (if which > 0 then which - 1 else which) hs = (k, d, s)"
      by (metis prod_cases3)
    from Cons.IH [OF r] Cons.prems True r show ?thesis by simp
  next
    case False
    obtain k d s where r: "redirect_scan mp cl now (which - 1) hs = (k, d, s)"
      by (metis prod_cases3)
    from Cons.IH [OF r] Cons.prems False r show ?thesis by auto
  qed
qed

lemma redirect_scan_none:
  "which \<le> 0 \<Longrightarrow> redirect_scan mp cl now which hs = (kept, dropped, sent) \<Longrightarrow> sent = []"
proof (induction hs arbitrary: which kept dropped sent)
  case Nil
  then show ?case by simp
next
  case (Cons h hs)
  show ?case
  proof (cases "expired now h")
    case True
    obtain k d s where r: "redirect_scan mp cl now which hs = (k, d, s)"
      by (metis prod_cases3)
    from Cons.IH [OF Cons.prems(1) r] Cons.prems True r show ?thesis by simp
  next
    case False
    obtain k d s where r: "redirect_scan mp cl now (which - 1) hs = (k, d, s)"
      by (metis prod_cases3)
    have "which - 1 \<le> 0" using Cons.prems(1) by simp
    from Cons.IH [OF this r] Cons.prems False r show ?thesis by auto
  qed
qed

lemma redirect_scan_sent:
  "redirect_scan mp cl now which hs = (kept, dropped, sent) \<Longrightarrow>
     length sent \<le> 1
     \<and> (\<forall>loc \<in> set sent. \<exists>h \<in> set hs. \<not> expired now h \<and> loc = redirect_location mp cl h)"
proof (induction hs arbitrary: which kept dropped sent)
  case Nil
  then show ?case by simp
next
  case (Cons h hs)
  show ?case
  proof (cases "expired now h")
    case True
    obtain k d s where r:
      "redirect_scan mp cl now (if which > 0 then which - 1 else which) hs = (k, d, s)"
      by (metis prod_cases3)
    from Cons.IH [OF r] Cons.prems True r show ?thesis by auto
  next
    case False
    obtain k d s where r: "redirect_scan mp cl now (which - 1) hs = (k, d, s)"
      by (metis prod_cases3)
    show ?thesis
    proof (cases "which - 1 = 0")
      case True
      then have "s = []" using redirect_scan_none [OF _ r] by simp
      with Cons.prems False r True show ?thesis by auto
    next
      case w: False
      from Cons.IH [OF r] Cons.prems False r w show ?thesis by auto
    qed
  qed
qed

text \<open>
  C9, as the claim states it, fails: a host whose \<open>next_update\<close> is 0 (one added by
  \<^verbatim>\<open>redirector_setup\<close> from the configuration) satisfies \<open>next_update + 10 < now\<close> and
  is nevertheless kept, and chosen: the test in the loop is
  \<^verbatim>\<open>checking->next_update && checking->next_update+10 < time(NULL)\<close>.
\<close>

theorem redirect_client_static_host_kept:
  "redirect_client ''/live'' example_listener 100 1
     \<lparr>redirectors = [\<lparr>server = ''peer'', redirect_port = 8000, next_update = 0\<rparr>],
      redirect_count = 1\<rparr>
   = (1,
      \<lparr>redirectors = [\<lparr>server = ''peer'', redirect_port = 8000, next_update = 0\<rparr>],
       redirect_count = 1\<rparr>,
      [''http://peer:8000/live''])"
  by (simp add: redirect_client_def expired_def redirect_location_def example_listener_def
      snprintf_def show_int_def show_nat.simps digit_char_def)

text \<open>
  C9, amended: on a lookup with a non-zero \<open>redirect_count\<close>, exactly the hosts with a
  non-zero \<open>next_update\<close> and \<open>next_update + 10 < now\<close> are removed, the counter drops by
  their number, hosts with \<open>next_update = 0\<close> are never removed, at most one redirect is
  sent, and its target is a host that was not removed.
\<close>

theorem redirect_client_expires:
  assumes "redirect_count st \<noteq> 0"
    and "redirect_client mountpoint client now which st = (ret, st', sent)"
  shows "redirectors st' = filter (\<lambda>h. \<not> (next_update h \<noteq> 0 \<and> next_update h + 10 < now)) (redirectors st)
       \<and> redirect_count st'
           = redirect_count st
             - int (length (filter (\<lambda>h. next_update h \<noteq> 0 \<and> next_update h + 10 < now) (redirectors st)))
       \<and> length sent \<le> 1
       \<and> ret = (if sent = [] then 0 else 1)
       \<and> (\<forall>loc \<in> set sent. \<exists>h \<in> set (redirectors st').
             \<not> (next_update h \<noteq> 0 \<and> next_update h + 10 < now)
             \<and> loc = redirect_location mountpoint client h)"
proof -
  obtain kept dropped where r:
    "redirect_scan mountpoint client now which (redirectors st) = (kept, dropped, sent)"
    and st': "st' = \<lparr>redirectors = kept, redirect_count = redirect_count st - dropped\<rparr>"
    and ret: "ret = (if sent = [] then 0 else 1)"
    using assms by (auto simp: redirect_client_def split: prod.splits)
  have e: "expired now = (\<lambda>h. next_update h \<noteq> 0 \<and> next_update h + 10 < now)"
    by (rule ext) (simp add: expired_def)
  from redirect_scan_kept [OF r] redirect_scan_sent [OF r] st' ret show ?thesis
    unfolding e by auto
qed

theorem redirect_client_expires_witness:
  "redirect_client ''/live'' example_listener 100 2
     \<lparr>redirectors = [\<lparr>server = ''old'', redirect_port = 8000, next_update = 50\<rparr>,
                      \<lparr>server = ''peer'', redirect_port = 8001, next_update = 95\<rparr>],
      redirect_count = 2\<rparr>
   = (1,
      \<lparr>redirectors = [\<lparr>server = ''peer'', redirect_port = 8001, next_update = 95\<rparr>],
       redirect_count = 1\<rparr>,
      [''http://peer:8001/live''])
   \<and> [\<lparr>server = ''peer'', redirect_port = 8001, next_update = (95::int)\<rparr>]
     = filter (\<lambda>h. \<not> (next_update h \<noteq> 0 \<and> next_update h + 10 < 100))
         [\<lparr>server = ''old'', redirect_port = 8000, next_update = 50\<rparr>,
          \<lparr>server = ''peer'', redirect_port = 8001, next_update = 95\<rparr>]"
proof -
  let ?st = "\<lparr>redirectors = [\<lparr>server = ''old'', redirect_port = 8000, next_update = 50\<rparr>,
                      \<lparr>server = ''peer'', redirect_port = 8001, next_update = 95\<rparr>],
      redirect_count = 2\<rparr>"
  have c: "redirect_count ?st \<noteq> 0" by simp
  have r: "redirect_client ''/live'' example_listener 100 2 ?st
     = (1, \<lparr>redirectors = [\<lparr>server = ''peer'', redirect_port = 8001, next_update = 95\<rparr>],
            redirect_count = 1\<rparr>, [''http://peer:8001/live''])"
    by (simp add: redirect_client_def expired_def redirect_location_def example_listener_def
        snprintf_def show_int_def show_nat.simps digit_char_def)
  from redirect_client_expires [OF c r] r show ?thesis by simp
qed





subsection \<open>The relay diff\<close>









subsection \<open>Opening the upstream connection\<close>




subsection \<open>Inline metadata validation\<close>




subsection \<open>The ICY framing: stripping an interleaved stream\<close>







subsection \<open>Buffer copies\<close>







subsection \<open>The parser leaves the framing state alone\<close>





subsection \<open>The filter loop follows the framing\<close>











lemma icy_state_read_fields [simp]:
  "icy_state I (st\<lparr>read_data := d\<rparr>) ph = icy_state I st ph"
  "icy_state I (st\<lparr>read_count := n\<rparr>) ph = icy_state I st ph"
  by (simp_all add: icy_state_def split: icy_phase.splits)





subsection \<open>The ICY insert cadence of a listener\<close>

lemma icy_meta_choice_cadence:
  assumes "cadence client n"
  shows "\<exists>mdata meta_len client1. icy_meta_choice client = Some (mdata, meta_len, client1)
           \<and> client_associated client1 \<noteq> None
           \<and> client_interval client1 = client_interval client
           \<and> since_meta_block client1 = since_meta_block client
           \<and> counter client1 = counter client
           \<and> pos client1 = pos client
           \<and> listener_refbuf client1 = listener_refbuf client"
  using assms
  by (cases "client_associated client"; cases "refbuf_associated (listener_refbuf client)")
     (auto simp: icy_meta_choice_def cadence_def)

lemma send_icy_metadata_cadence:
  assumes c: "cadence client n" and b: "since_meta_block client = client_interval client"
    and s: "\<forall>m. send m \<le> m"
  shows "\<exists>ret client'. send_icy_metadata send client = Some (ret, client')
           \<and> client_interval client' = client_interval client
           \<and> cadence client' (if CLIENT_IN_METADATA \<notin> listener_flags client' then Suc n else n)"
proof -
  from icy_meta_choice_cadence [OF c] obtain mdata meta_len client1 where
    ch: "icy_meta_choice client = Some (mdata, meta_len, client1)"
    and a: "client_associated client1 \<noteq> None"
    and f: "client_interval client1 = client_interval client"
       "since_meta_block client1 = since_meta_block client"
       "counter client1 = counter client"
    by blast
  define ret where "ret = send (meta_len + icy_block_len client1)"
  from c have I: "0 < client_interval client"
    and cnt: "counter client = int n * client_interval client + since_meta_block client"
    by (simp_all add: cadence_def)
  have r: "ret \<le> meta_len + icy_block_len client1" unfolding ret_def using s by blast
  have bl: "icy_block_len client1 \<le> client_interval client"
    using f by (simp add: icy_block_len_def)
  show ?thesis
  proof (cases "ret \<ge> meta_len")
    case True
    have q: "0 \<le> ret - meta_len" "ret - meta_len \<le> client_interval client"
      using True r bl by linarith+
    have k: "counter client + (ret - meta_len)
               = int (Suc n) * client_interval client + (ret - meta_len)"
      using cnt b by (simp add: algebra_simps)
    from True q I a f k show ?thesis
      by (simp add: send_icy_metadata_def ch Let_def ret_def [symmetric] cadence_def)
  next
    case False
    with c b a f show ?thesis
      by (simp add: send_icy_metadata_def ch Let_def ret_def [symmetric] cadence_def)
  qed
qed

lemma write_buf_cadence:
  assumes c: "cadence client n" and s: "\<forall>m. send m \<le> m"
  shows "\<exists>ret client'. format_mp3_write_buf_to_client send client = Some (ret, client')
           \<and> client_interval client' = client_interval client
           \<and> cadence client' (if insert_completed client client' then Suc n else n)"
proof (cases "since_meta_block client = client_interval client")
  case True
  from c have "client_interval client \<noteq> 0" by (simp add: cadence_def)
  with send_icy_metadata_cadence [OF c True s] True show ?thesis
    by (simp add: format_mp3_write_buf_to_client_def insert_completed_def)
next
  case False
  define ret where "ret = send (audio_len client)"
  from c have I: "0 < client_interval client" and lo: "0 \<le> since_meta_block client"
    and hi: "since_meta_block client \<le> client_interval client"
    and cnt: "counter client = int n * client_interval client + since_meta_block client"
    and nm: "CLIENT_IN_METADATA \<notin> listener_flags client"
    and as: "CLIENT_USING_BLANK_META \<in> listener_flags client \<longrightarrow> client_associated client \<noteq> None"
    using False by (auto simp: cadence_def)
  have cap: "audio_len client \<le> client_interval client - since_meta_block client"
    using I by (auto simp: audio_len_def Let_def)
  have r: "ret \<le> audio_len client" unfolding ret_def using s by blast
  have ni: "\<not> insert_completed client client'" for client'
    using False by (simp add: insert_completed_def)
  have le: "since_meta_block client + ret \<le> client_interval client" using cap r by linarith
  from False I lo hi cnt nm as le ni show ?thesis
    by (simp add: format_mp3_write_buf_to_client_def Let_def ret_def [symmetric] cadence_def)
qed

lemma enter_tick_cadence:
  "cadence client n \<Longrightarrow> cadence (enter_tick client t) n"
  "client_interval (enter_tick client t) = client_interval client"
  by (auto simp: enter_tick_def cadence_def split: option.splits)

lemma listener_run_cadence:
  "cadence client n \<Longrightarrow> \<forall>t \<in> set ticks. \<forall>m. tick_send t m \<le> m \<Longrightarrow>
     \<exists>client' inserts. listener_run client n ticks = Some (client', inserts)
       \<and> client_interval client' = client_interval client \<and> cadence client' inserts"
proof (induction ticks arbitrary: client n)
  case Nil
  then show ?case by simp
next
  case (Cons t ts)
  from Cons.prems(2) have s: "\<forall>m. tick_send t m \<le> m"
    and ss: "\<forall>t \<in> set ts. \<forall>m. tick_send t m \<le> m" by simp_all
  from write_buf_cadence [OF enter_tick_cadence(1) [OF Cons.prems(1)] s, of t]
  obtain ret client1 where
    w: "format_mp3_write_buf_to_client (tick_send t) (enter_tick client t) = Some (ret, client1)"
    and i1: "client_interval client1 = client_interval client"
    and c1: "cadence client1
               (if insert_completed (enter_tick client t) client1 then Suc n else n)"
    by (auto simp: enter_tick_cadence(2))
  from Cons.IH [OF c1 ss] w i1 show ?case by simp
qed
text \<open>
  C1, as the claim states it, fails at an interval boundary: the insert is emitted on
  the tick after \<open>since_meta_block\<close> has reached the interval. A listener with interval
  16 whose first write delivers 16 payload bytes has received \<open>N = 16\<close> bytes and no
  metadata insert, while \<open>N div 16 = 1\<close>.
\<close>

theorem icy_insert_pending_at_boundary:
  "listener_run example_icy_listener 0 [\<lparr>next_block = None, tick_send = (\<lambda>n. n)\<rparr>]
     = Some (example_icy_listener
               \<lparr>pos := 16, queue_pos := 16, counter := 16, listener_schedule_ms := 4,
                since_meta_block := 16\<rparr>, 0)
   \<and> (16 :: int) div client_interval example_icy_listener \<noteq> int 0"
  by (simp add: example_icy_listener_def example_block_def refbuf_new_def enter_tick_def
      format_mp3_write_buf_to_client_def audio_len_def insert_completed_def)

text \<open>
  C1, amended: for an ICY listener with interval \<open>I > 0\<close>, starting with no payload
  sent, over any sequence of write ticks whose sends never report more than they were
  given: every tick returns; the payload bytes delivered are \<open>N = inserts * I +
  since_meta_block\<close> with \<open>0 \<le> since_meta_block \<le> I\<close>, so exactly \<open>I\<close> payload bytes lie
  between consecutive inserts and never more than \<open>I\<close> follow the last one; the number
  of inserts is \<open>N div I\<close>, except while the listener sits at a boundary with the insert
  not yet completed (\<open>since_meta_block = I\<close>), when it is \<open>N div I - 1\<close>.
\<close>

theorem icy_insert_cadence:
  assumes "0 < client_interval client"
    and "since_meta_block client = 0" and "counter client = 0"
    and "CLIENT_IN_METADATA \<notin> listener_flags client"
    and "CLIENT_USING_BLANK_META \<notin> listener_flags client"
    and "\<forall>t \<in> set ticks. \<forall>m. tick_send t m \<le> m"
  shows "\<exists>client' inserts.
           listener_run client 0 ticks = Some (client', inserts)
           \<and> client_interval client' = client_interval client
           \<and> counter client' = int inserts * client_interval client + since_meta_block client'
           \<and> 0 \<le> since_meta_block client'
           \<and> since_meta_block client' \<le> client_interval client
           \<and> (since_meta_block client' < client_interval client
                \<longrightarrow> int inserts = counter client' div client_interval client)
           \<and> (since_meta_block client' = client_interval client
                \<longrightarrow> int inserts = counter client' div client_interval client - 1)"
proof -
  have "cadence client 0" using assms(1-5) by (simp add: cadence_def)
  from listener_run_cadence [OF this assms(6)] obtain client' inserts where
    r: "listener_run client 0 ticks = Some (client', inserts)"
    and i: "client_interval client' = client_interval client"
    and c: "cadence client' inserts"
    by blast
  define I where "I = client_interval client"
  define s where "s = since_meta_block client'"
  from c i have I: "0 < I" and s: "0 \<le> s" "s \<le> I"
    and n: "counter client' = int inserts * I + s"
    by (simp_all add: cadence_def I_def s_def)
  have d1: "int inserts = counter client' div I" if "s < I"
    using that s I n by simp
  have d2: "int inserts = counter client' div I - 1" if "s = I"
  proof -
    from n that have "counter client' = (int inserts + 1) * I" by (simp add: algebra_simps)
    with I show ?thesis by simp
  qed
  from r i n s d1 d2 show ?thesis unfolding I_def s_def by blast
qed

theorem icy_insert_cadence_witness:
  "\<exists>client' inserts.
     listener_run example_icy_listener 0
       [\<lparr>next_block = None, tick_send = (\<lambda>n. min n 10)\<rparr>,
        \<lparr>next_block = None, tick_send = (\<lambda>n. n)\<rparr>,
        \<lparr>next_block = None, tick_send = (\<lambda>n. min n 7)\<rparr>,
        \<lparr>next_block = None, tick_send = (\<lambda>n. n)\<rparr>]
       = Some (client', inserts)
     \<and> client_interval client' = 16
     \<and> counter client' = int inserts * 16 + since_meta_block client'
     \<and> 0 \<le> since_meta_block client' \<and> since_meta_block client' \<le> 16"
proof -
  have 1: "0 < client_interval example_icy_listener"
       "since_meta_block example_icy_listener = 0" "counter example_icy_listener = 0"
       "CLIENT_IN_METADATA \<notin> listener_flags example_icy_listener"
       "CLIENT_USING_BLANK_META \<notin> listener_flags example_icy_listener"
       "client_interval example_icy_listener = 16"
    by (simp_all add: example_icy_listener_def)
  have 2: "\<forall>t \<in> set [\<lparr>next_block = None, tick_send = (\<lambda>n. min n 10)\<rparr>,
        \<lparr>next_block = None, tick_send = (\<lambda>n. n)\<rparr>,
        \<lparr>next_block = None, tick_send = (\<lambda>n. min n 7)\<rparr>,
        \<lparr>next_block = None, tick_send = (\<lambda>n :: int. n)\<rparr>]. \<forall>m. tick_send t m \<le> m"
    by simp
  from icy_insert_cadence [OF 1(1-5) 2] show ?thesis
    unfolding 1(6) by blast
qed

subsection \<open>Listener response headers\<close>


lemma add_header_fits:
  "length s < r \<Longrightarrow> add_header (Some (t, r)) s = Some (t @ s, r - length s)"
  by (simp add: add_header_def)






end
